theory Spec2Isabelle
  imports Main "HOL-Library.Sublist"
begin

section \<open>The regex replace loader (src/index.js)\<close>

text \<open>
  The loader takes the module source (a string) and an options object and returns the
  source after the configured replacements. The options object is what
  \<^verbatim>\<open>getOptions(this)\<close> gets from the host; here it is the second argument.
  Everything the loader computes goes through three host primitives of JavaScript: the
  type tests, the \<^verbatim>\<open>RegExp\<close> constructor and \<^verbatim>\<open>String.prototype.replace\<close>.
  They are modelled below after ECMA-262, on strings of 8-bit characters.
\<close>

subsection \<open>Values of the options object\<close>

text \<open>
  The arguments that \<^verbatim>\<open>String.prototype.replace\<close> passes to a replacer function:
  strings (the match, the groups that took part, the input), \<^verbatim>\<open>undefined\<close> (a group
  that did not take part), the offset of the match and, for a pattern with named groups,
  the object that has the value of each named group under its name.
\<close>

type_synonym groups = "(string \<times> string option) list"

datatype arg = AUndef | AStr string | ANum nat | AGroups groups

text \<open>
  The object that \<^verbatim>\<open>getMatchFn\<close> builds: properties \<^verbatim>\<open>0\<close>, \<^verbatim>\<open>1\<close>, ... and
  \<^verbatim>\<open>index\<close>, \<^verbatim>\<open>input\<close>. A property that is absent reads as \<open>None\<close>.
\<close>

datatype key = KIdx nat | KIndex | KInput

type_synonym match_record = "key \<Rightarrow> arg option"

text \<open>
  A compiled pattern is taken by its behaviour: tried at index \<open>i\<close> of the input it
  fails or gives the number of characters matched, the values of its capture groups and,
  when it has named groups, their values by name
  (the \<^verbatim>\<open>[[RegExpMatcher]]\<close> of ECMA-262, 22.2.2). A \<^verbatim>\<open>RegExp\<close> object has its
  flags and its source, the source given by what it compiles to under a flag string
  (\<open>None\<close> where the source is not a pattern under these flags).
\<close>

type_synonym matcher =
  "string \<Rightarrow> nat \<Rightarrow> (nat \<times> string option list \<times> groups option) option"

record regexp =
  compile :: "string \<Rightarrow> matcher option"
  rflags :: string

text \<open>
  The values an option can hold. A function value is taken as a total function from the
  match record to the string its result converts to.
\<close>

datatype jsval =
    Undefined
  | Null
  | Bool bool
  | Num int
  | NaN
  | Str (string_of: string)
  | Fun (function_of: "match_record \<Rightarrow> string")
  | RegExpV (regexp_of: regexp)
  | Obj

text \<open>
  \<^verbatim>\<open>slice(start, stop)\<close> of strings and of arrays: an index below zero counts from
  the end, and both indices are cut to the length.
\<close>

definition js_slice :: "'a list \<Rightarrow> int \<Rightarrow> int \<Rightarrow> 'a list" where
  "js_slice xs start stop =
     (let len = int (length xs);
          first = (if start < 0 then max (len + start) 0 else min start len);
          final = (if stop < 0 then max (len + stop) 0 else min stop len)
      in take (nat (final - first)) (drop (nat first) xs))"

text \<open>
  \<^verbatim>\<open>Object.prototype.toString.call(object)\<close>; \<^verbatim>\<open>typeOf(object)\<close>, which cuts the
  class name out of it; and the operator \<^verbatim>\<open>typeof\<close>.
\<close>

fun Object_toString :: "jsval \<Rightarrow> string" where
  "Object_toString Undefined = ''[object Undefined]''"
| "Object_toString Null = ''[object Null]''"
| "Object_toString (Bool b) = ''[object Boolean]''"
| "Object_toString (Num n) = ''[object Number]''"
| "Object_toString NaN = ''[object Number]''"
| "Object_toString (Str s) = ''[object String]''"
| "Object_toString (Fun f) = ''[object Function]''"
| "Object_toString (RegExpV r) = ''[object RegExp]''"
| "Object_toString Obj = ''[object Object]''"

definition typeOf :: "jsval \<Rightarrow> string" where
  "typeOf object = js_slice (Object_toString object) 8 (- 1)"

fun js_typeof :: "jsval \<Rightarrow> string" where
  "js_typeof Undefined = ''undefined''"
| "js_typeof Null = ''object''"
| "js_typeof (Bool b) = ''boolean''"
| "js_typeof (Num n) = ''number''"
| "js_typeof NaN = ''number''"
| "js_typeof (Str s) = ''string''"
| "js_typeof (Fun f) = ''function''"
| "js_typeof (RegExpV r) = ''object''"
| "js_typeof Obj = ''object''"

text \<open>The truth value of \<^verbatim>\<open>if (stage.enable)\<close> (ToBoolean).\<close>

fun truthy :: "jsval \<Rightarrow> bool" where
  "truthy Undefined = False"
| "truthy Null = False"
| "truthy (Bool b) = b"
| "truthy (Num n) = (n \<noteq> 0)"
| "truthy NaN = False"
| "truthy (Str s) = (s \<noteq> [])"
| "truthy (Fun f) = True"
| "truthy (RegExpV r) = True"
| "truthy Obj = True"

text \<open>
  \<^verbatim>\<open>LoaderOptions\<close>: a stage has \<^verbatim>\<open>regex\<close>, \<^verbatim>\<open>flags\<close> (absent or a string),
  \<^verbatim>\<open>value\<close> and \<^verbatim>\<open>enable\<close>; the options object is a stage that may also have
  \<^verbatim>\<open>stages\<close> (\<open>None\<close> when \<^verbatim>\<open>Array.isArray(options.stages)\<close> is false).
\<close>

record stage =
  regex :: jsval
  flags :: "string option"
  val :: jsval
  enable :: jsval

record options = stage +
  stages :: "stage list option"

datatype error = Error string | SyntaxError

definition NAME :: string where
  "NAME = ''Regex Replace Loader''"

subsection \<open>The RegExp constructor\<close>

text \<open>
  \<^verbatim>\<open>new RegExp(regex, flags)\<close> for a \<^verbatim>\<open>RegExp\<close> object \<^verbatim>\<open>regex\<close>: the flags are
  those given, or those of \<^verbatim>\<open>regex\<close> when \<^verbatim>\<open>flags\<close> is undefined; a flag string with
  a letter outside \<^verbatim>\<open>dgimsuvy\<close>, with a letter twice or with both \<^verbatim>\<open>u\<close> and
  \<^verbatim>\<open>v\<close>, and a source that is no pattern under the flags, throw a SyntaxError.
\<close>

definition valid_flags :: "string \<Rightarrow> bool" where
  "valid_flags F =
     (list_all (\<lambda>c. c \<in> set ''dgimsuvy'') F \<and> distinct F \<and>
      \<not> (CHR ''u'' \<in> set F \<and> CHR ''v'' \<in> set F))"

text \<open>What \<^verbatim>\<open>getRegex\<close> returns: the string it was given, or a new \<^verbatim>\<open>RegExp\<close>.\<close>

datatype pattern = PString string | PRegExp matcher string

definition given_flags :: "regexp \<Rightarrow> string option \<Rightarrow> string" where
  "given_flags r fl = (case fl of None \<Rightarrow> rflags r | Some F \<Rightarrow> F)"

definition new_RegExp :: "regexp \<Rightarrow> string option \<Rightarrow> error + pattern" where
  "new_RegExp r fl =
     (let F = given_flags r fl in
      if \<not> valid_flags F then Inl SyntaxError
      else case compile r F of
             None \<Rightarrow> Inl SyntaxError
           | Some m \<Rightarrow> Inr (PRegExp m F))"

subsection \<open>getRegex, getValueOrMatchFn, getMatchFn\<close>

definition getRegex :: "jsval \<Rightarrow> string option \<Rightarrow> error + pattern" where
  "getRegex rx fl =
     (if typeOf rx = ''String'' then Inr (PString (string_of rx))
      else if typeOf rx = ''RegExp'' then new_RegExp (regexp_of rx) fl
      else Inl (Error (NAME @ '': option \"regex\" must be a string or a RegExp object'')))"

text \<open>\<^verbatim>\<open>arguments[i]\<close>: undefined outside the arguments.\<close>

definition arguments_at :: "arg list \<Rightarrow> int \<Rightarrow> arg" where
  "arguments_at arguments i =
     (if 0 \<le> i \<and> i < int (length arguments) then arguments ! nat i else AUndef)"

text \<open>\<^verbatim>\<open>Array.prototype.reduce\<close> with the index of the element as third argument.\<close>

fun reduce :: "('b \<Rightarrow> 'a \<Rightarrow> nat \<Rightarrow> 'b) \<Rightarrow> 'b \<Rightarrow> nat \<Rightarrow> 'a list \<Rightarrow> 'b" where
  "reduce f acc i [] = acc"
| "reduce f acc i (g # gs) = reduce f (f acc g i) (Suc i) gs"

definition getMatchFn :: "(match_record \<Rightarrow> string) \<Rightarrow> arg list \<Rightarrow> string" where
  "getMatchFn valueFn arguments =
     (let len = length arguments;
          match = reduce (\<lambda>map g i. map(KIdx i \<mapsto> g))
                    [KIndex \<mapsto> arguments_at arguments (int len - 2),
                     KInput \<mapsto> arguments_at arguments (int len - 1)]
                    0 (js_slice arguments 0 (- 2))
      in valueFn match)"

text \<open>What \<^verbatim>\<open>getValueOrMatchFn\<close> returns: the string, or the match function.\<close>

datatype replacer = Template string | Callback "arg list \<Rightarrow> string"

definition getValueOrMatchFn :: "jsval \<Rightarrow> error + replacer" where
  "getValueOrMatchFn value =
     (if js_typeof value = ''function'' then Inr (Callback (getMatchFn (function_of value)))
      else if js_typeof value = ''string'' then Inr (Template (string_of value))
      else Inl (Error (NAME @ '': option \"value\" must be a string or a function'')))"

subsection \<open>String.prototype.replace\<close>

text \<open>
  \<^verbatim>\<open>StringIndexOf(string, searchValue, 0)\<close>: the least index where the search string
  occurs in the string; the empty search string occurs at index 0.
\<close>

fun StringIndexOf :: "string \<Rightarrow> string \<Rightarrow> nat option" where
  "StringIndexOf [] searchValue = (if searchValue = [] then Some 0 else None)"
| "StringIndexOf (c # cs) searchValue =
     (if prefix searchValue (c # cs) then Some 0
      else map_option Suc (StringIndexOf cs searchValue))"

definition is_digit :: "char \<Rightarrow> bool" where
  "is_digit c = (c \<in> set ''0123456789'')"

definition digit_of :: "char \<Rightarrow> nat" where
  "digit_of c = of_char c - 48"

text \<open>
  \<^verbatim>\<open>GetSubstitution(matched, str, position, captures, namedCaptures, template)\<close>:
  the replacement text of a template. \<^verbatim>\<open>$$\<close> is a dollar sign, \<^verbatim>\<open>$&\<close> the match,
  \<^verbatim>\<open>$`\<close> (character 0x60) the text before the match, \<^verbatim>\<open>$'\<close> (character 0x27) the
  text after it, \<^verbatim>\<open>$n\<close> and \<^verbatim>\<open>$nn\<close> the capture with that number when there is
  one; two digits that exceed the number of captures are read as one digit and a
  literal digit; \<^verbatim>\<open>$<name>\<close> the named group, when the pattern has named groups.
  Everything else stands for itself.
\<close>

function GetSubstitution ::
  "string \<Rightarrow> string \<Rightarrow> nat \<Rightarrow> string option list \<Rightarrow> groups option \<Rightarrow> string \<Rightarrow> string"
  where
  "GetSubstitution matched str position captures namedCaptures [] = []"
| "GetSubstitution matched str position captures namedCaptures [c] = [c]"
| "GetSubstitution matched str position captures namedCaptures (c # d # rest) =
     (if c \<noteq> CHR ''$'' then c # GetSubstitution matched str position captures namedCaptures (d # rest)
      else if d = CHR ''$'' then
        CHR ''$'' # GetSubstitution matched str position captures namedCaptures rest
      else if d = CHR 0x60 then
        take position str @ GetSubstitution matched str position captures namedCaptures rest
      else if d = CHR ''&'' then
        matched @ GetSubstitution matched str position captures namedCaptures rest
      else if d = CHR 0x27 then
        drop (min (position + length matched) (length str)) str
          @ GetSubstitution matched str position captures namedCaptures rest
      else if is_digit d then
        (let index2 = (case rest of
                         [] \<Rightarrow> None
                       | e # es \<Rightarrow> if is_digit e then Some (10 * digit_of d + digit_of e)
                                   else None);
             digitCount = (case index2 of
                             None \<Rightarrow> 1
                           | Some i \<Rightarrow> if i > length captures then 1 else (2::nat));
             index = (case index2 of
                        None \<Rightarrow> digit_of d
                      | Some i \<Rightarrow> if i > length captures then digit_of d else i);
             ref = take (1 + digitCount) (c # d # rest);
             refReplacement =
               (if 1 \<le> index \<and> index \<le> length captures
                then (case captures ! (index - 1) of None \<Rightarrow> [] | Some s \<Rightarrow> s)
                else ref)
         in refReplacement
              @ GetSubstitution matched str position captures namedCaptures (drop (digitCount - 1) rest))
      else if d = CHR ''<'' then
        (case namedCaptures of
           None \<Rightarrow>
             CHR ''$'' # CHR ''<''
               # GetSubstitution matched str position captures namedCaptures rest
         | Some named \<Rightarrow>
             if CHR ''>'' \<notin> set rest then
               CHR ''$'' # CHR ''<''
                 # GetSubstitution matched str position captures namedCaptures rest
             else
               (let groupName = takeWhile (\<lambda>x. x \<noteq> CHR ''>'') rest;
                    refReplacement =
                      (case map_of named groupName of
                         Some (Some capture) \<Rightarrow> capture
                       | _ \<Rightarrow> [])
                in refReplacement
                     @ GetSubstitution matched str position captures namedCaptures
                         (drop (Suc (length groupName)) rest)))
      else c # GetSubstitution matched str position captures namedCaptures (d # rest))"
  by pat_completeness auto
termination
  by (relation
       "measure (\<lambda>(matched, str, position, captures, namedCaptures, template). length template)")
     auto

text \<open>
  The matches that \<^verbatim>\<open>RegExp.prototype[Symbol.replace]\<close> collects, each the result of
  \<^verbatim>\<open>RegExpBuiltinExec\<close> from \<^verbatim>\<open>lastIndex\<close>: the matcher is tried at
  \<^verbatim>\<open>lastIndex\<close> and, unless the pattern is sticky, at every later index up to the
  length of the input. A pattern that is not global gives its first match only; a global
  one goes on from the end of the match, one further after an empty match. Each match
  is its index, its text, its captures and its named groups.
\<close>

function exec_loop ::
  "matcher \<Rightarrow> bool \<Rightarrow> bool \<Rightarrow> string \<Rightarrow> nat
     \<Rightarrow> (nat \<times> string \<times> string option list \<times> groups option) list" where
  "exec_loop m global sticky S lastIndex =
     (if lastIndex > length S then []
      else case m S lastIndex of
             None \<Rightarrow> if sticky then [] else exec_loop m global sticky S (Suc lastIndex)
           | Some (n, captures, namedCaptures) \<Rightarrow>
               (let matched = take n (drop lastIndex S) in
                (lastIndex, matched, captures, namedCaptures) #
                  (if global
                   then exec_loop m global sticky S
                          (if matched = [] then Suc lastIndex else lastIndex + length matched)
                   else [])))"
  by pat_completeness auto
termination
  by (relation "measure (\<lambda>(m, global, sticky, S, lastIndex). Suc (length S) - lastIndex)")
     auto

fun capture_arg :: "string option \<Rightarrow> arg" where
  "capture_arg None = AUndef"
| "capture_arg (Some s) = AStr s"

text \<open>
  The text that replaces one match: a function is called with the match, the captures,
  the position and the input, and with the groups object after them when the pattern
  has named groups; a string is a template.
\<close>

fun replacement ::
  "replacer \<Rightarrow> string \<Rightarrow> string \<Rightarrow> nat \<Rightarrow> string option list \<Rightarrow> groups option \<Rightarrow> string"
  where
  "replacement (Callback f) S matched position captures namedCaptures =
     f ([AStr matched] @ map capture_arg captures @ [ANum position, AStr S]
          @ (case namedCaptures of None \<Rightarrow> [] | Some named \<Rightarrow> [AGroups named]))"
| "replacement (Template t) S matched position captures namedCaptures =
     GetSubstitution matched S position captures namedCaptures t"

text \<open>
  The result is put together from the matches in order: the text from
  \<^verbatim>\<open>nextSourcePosition\<close> to the match, the replacement, and at the end the rest of
  the input.
\<close>

fun splice ::
  "string \<Rightarrow> replacer \<Rightarrow> nat
     \<Rightarrow> (nat \<times> string \<times> string option list \<times> groups option) list \<Rightarrow> string" where
  "splice S rep nextSourcePosition [] = drop nextSourcePosition S"
| "splice S rep nextSourcePosition ((position, matched, captures, namedCaptures) # results) =
     (if position \<ge> nextSourcePosition
      then take (position - nextSourcePosition) (drop nextSourcePosition S)
             @ replacement rep S matched position captures namedCaptures
             @ splice S rep (position + length matched) results
      else splice S rep nextSourcePosition results)"

text \<open>
  \<^verbatim>\<open>source.replace(regex, valueOrFn)\<close>. A search value that is a string is looked for
  as it is, character by character, and only its first occurrence is replaced, with no
  captures and no named groups; a \<^verbatim>\<open>RegExp\<close> replaces its first match, or all of
  them when it has the flag \<^verbatim>\<open>g\<close>.
\<close>

fun String_replace :: "string \<Rightarrow> pattern \<Rightarrow> replacer \<Rightarrow> string" where
  "String_replace S (PString searchString) rep =
     (case StringIndexOf S searchString of
        None \<Rightarrow> S
      | Some pos \<Rightarrow> splice S rep 0 [(pos, searchString, [], None)])"
| "String_replace S (PRegExp m F) rep =
     splice S rep 0 (exec_loop m (CHR ''g'' \<in> set F) (CHR ''y'' \<in> set F) S 0)"

subsection \<open>replace and regexReplaceLoader\<close>

definition replace :: "pattern \<Rightarrow> string \<Rightarrow> 'a stage_scheme \<Rightarrow> error + string" where
  "replace rx source opts =
     (case getValueOrMatchFn (val opts) of
        Inl e \<Rightarrow> Inl e
      | Inr valueOrFn \<Rightarrow> Inr (String_replace source rx valueOrFn))"

text \<open>The function given to \<^verbatim>\<open>stages.forEach\<close>, from the source to the new source.\<close>

definition stage_body :: "stage \<Rightarrow> string \<Rightarrow> error + string" where
  "stage_body st source =
     (if truthy (enable st) then
        (case getRegex (regex st) (flags st) of
           Inl e \<Rightarrow> Inl e
         | Inr rx \<Rightarrow> replace rx source st)
      else Inr source)"

text \<open>\<^verbatim>\<open>forEach\<close>: the stages in order; an exception ends the loop and the call.\<close>

fun forEach :: "stage list \<Rightarrow> string \<Rightarrow> error + string" where
  "forEach [] source = Inr source"
| "forEach (st # rest) source =
     (case stage_body st source of
        Inl e \<Rightarrow> Inl e
      | Inr source' \<Rightarrow> forEach rest source')"

definition stages_of :: "options \<Rightarrow> stage list" where
  "stages_of opts = (case stages opts of Some ss \<Rightarrow> ss | None \<Rightarrow> [stage.truncate opts])"

definition regexReplaceLoader :: "string \<Rightarrow> options \<Rightarrow> error + string" where
  "regexReplaceLoader source opts = forEach (stages_of opts) source"

subsection \<open>Notions used in the statements\<close>

text \<open>
  The compiled pattern of a stage matches nowhere in a buffer: the regex of the stage is
  a \<^verbatim>\<open>RegExp\<close> object that the constructor accepts with the flags of the stage, and
  the new pattern fails at every index of the buffer.
\<close>

definition matches_nowhere :: "stage \<Rightarrow> string \<Rightarrow> bool" where
  "matches_nowhere st b =
     (case regex st of
        RegExpV r \<Rightarrow>
          (case new_RegExp r (flags st) of
             Inr (PRegExp m F) \<Rightarrow> list_all (\<lambda>i. m b i = None) [0..<Suc (length b)]
           | _ \<Rightarrow> False)
      | _ \<Rightarrow> False)"

text \<open>The value of a stage is a string or a function.\<close>

definition valid_value :: "jsval \<Rightarrow> bool" where
  "valid_value v = (js_typeof v = ''function'' \<or> js_typeof v = ''string'')"

text \<open>
  The match record with the values \<open>gs\<close> at the keys \<open>0, 1, ...\<close>, \<open>off\<close> at
  \<^verbatim>\<open>index\<close> and \<open>inp\<close> at \<^verbatim>\<open>input\<close>.
\<close>

definition match_of :: "arg list \<Rightarrow> arg \<Rightarrow> arg \<Rightarrow> match_record" where
  "match_of gs off inp =
     (\<lambda>k. case k of
            KIdx i \<Rightarrow> if i < length gs then Some (gs ! i) else None
          | KIndex \<Rightarrow> Some off
          | KInput \<Rightarrow> Some inp)"

text \<open>
  The pattern \<^verbatim>\<open>(\d+)-(\d+)\<close>: its source text, and what it does as a compiled
  pattern. Tried at index \<open>i\<close> it takes the longest run of digits, a hyphen and the
  longest run of digits again; a shorter first run would be followed by a digit, not by
  the hyphen.
\<close>

definition digits_dash_digits_source :: string where
  "digits_dash_digits_source =
     [CHR ''('', CHR 0x5C, CHR ''d'', CHR ''+'', CHR '')'', CHR ''-'',
      CHR ''('', CHR 0x5C, CHR ''d'', CHR ''+'', CHR '')'']"

definition digits_dash_digits :: matcher where
  "digits_dash_digits S i =
     (let a = takeWhile is_digit (drop i S) in
      if a = [] then None
      else case drop (i + length a) S of
             [] \<Rightarrow> None
           | c # r \<Rightarrow>
               if c \<noteq> CHR ''-'' then None
               else let b = takeWhile is_digit r in
                    if b = [] then None
                    else Some (length a + 1 + length b, [Some a, Some b], None))"

definition digits_dash_digits_regexp :: regexp where
  "digits_dash_digits_regexp = \<lparr>compile = (\<lambda>F. Some digits_dash_digits), rflags = []\<rparr>"

text \<open>
  Further compiled patterns: \<^verbatim>\<open>[0-9]+\<close> (the longest run of digits),
  \<^verbatim>\<open>[0-9]\<close> (one digit), \<^verbatim>\<open>(?<d>[0-9])\<close> (one digit, as group 1 and as
  the group named \<^verbatim>\<open>d\<close>), and \<^verbatim>\<open>^a\<close>: the letter \<^verbatim>\<open>a\<close> at the start of the
  input, with the flag \<^verbatim>\<open>m\<close> also after a line break, with the flag \<^verbatim>\<open>i\<close> also
  the letter \<^verbatim>\<open>A\<close>.
\<close>

definition digits :: matcher where
  "digits S i =
     (let a = takeWhile is_digit (drop i S) in
      if a = [] then None else Some (length a, [], None))"

definition digits_regexp :: regexp where
  "digits_regexp = \<lparr>compile = (\<lambda>F. Some digits), rflags = []\<rparr>"

definition one_digit :: matcher where
  "one_digit S i =
     (case drop i S of
        [] \<Rightarrow> None
      | c # r \<Rightarrow> if is_digit c then Some (1, [], None) else None)"

definition one_digit_regexp :: regexp where
  "one_digit_regexp = \<lparr>compile = (\<lambda>F. Some one_digit), rflags = []\<rparr>"

definition named_digit :: matcher where
  "named_digit S i =
     (case drop i S of
        [] \<Rightarrow> None
      | c # r \<Rightarrow> if is_digit c then Some (1, [Some [c]], Some [(''d'', Some [c])]) else None)"

definition named_digit_regexp :: regexp where
  "named_digit_regexp = \<lparr>compile = (\<lambda>F. Some named_digit), rflags = []\<rparr>"

definition caret_a :: "bool \<Rightarrow> bool \<Rightarrow> matcher" where
  "caret_a multiline ignoreCase S i =
     (if i < length S \<and>
         (i = 0 \<or> (multiline \<and> S ! (i - 1) \<in> set [CHR 0x0A, CHR 0x0D])) \<and>
         (S ! i = CHR ''a'' \<or> (ignoreCase \<and> S ! i = CHR ''A''))
      then Some (1, [], None)
      else None)"

definition caret_a_regexp :: regexp where
  "caret_a_regexp =
     \<lparr>compile = (\<lambda>F. Some (caret_a (CHR ''m'' \<in> set F) (CHR ''i'' \<in> set F))),
      rflags = []\<rparr>"

text \<open>
  The function \<^verbatim>\<open>match => match[1] + "+" + match[2]\<close>, which here also looks at
  \<^verbatim>\<open>match.index\<close> and \<^verbatim>\<open>match.input\<close>.
\<close>

definition group_text :: "arg option \<Rightarrow> string" where
  "group_text a = (case a of Some (AStr s) \<Rightarrow> s | _ \<Rightarrow> ''undefined'')"

definition plus_fn :: "match_record \<Rightarrow> string" where
  "plus_fn match =
     (if match KIndex = Some (ANum 0) \<and> match KInput = Some (AStr ''10-20'')
      then group_text (match (KIdx 1)) @ ''+'' @ group_text (match (KIdx 2))
      else ''not observed'')"

text \<open>The function \<^verbatim>\<open>match => match.index\<close>, for an index that is a string.\<close>

definition index_fn :: "match_record \<Rightarrow> string" where
  "index_fn match = group_text (match KIndex)"

section \<open>Auxiliary facts\<close>

lemma typeOf_simps [simp]:
  "typeOf Undefined = ''Undefined''" "typeOf Null = ''Null''"
  "typeOf (Bool x) = ''Boolean''" "typeOf (Num n) = ''Number''" "typeOf NaN = ''Number''"
  "typeOf (Str s) = ''String''" "typeOf (Fun f) = ''Function''"
  "typeOf (RegExpV r) = ''RegExp''" "typeOf Obj = ''Object''"
  by (simp_all add: typeOf_def js_slice_def)

lemma typeOf_String: "typeOf v = ''String'' \<Longrightarrow> \<exists>s. v = Str s"
  by (cases v) simp_all

lemma js_slice_but_last_two: "js_slice (gs @ [x, y]) 0 (- 2) = gs"
  by (simp add: js_slice_def)

lemma getRegex_Str [simp]: "getRegex (Str s) fl = Inr (PString s)"
  by (simp add: getRegex_def)

lemma getRegex_RegExpV [simp]: "getRegex (RegExpV r) fl = new_RegExp r fl"
  by (simp add: getRegex_def)

lemma getRegex_other:
  "typeOf v \<noteq> ''String'' \<Longrightarrow> typeOf v \<noteq> ''RegExp'' \<Longrightarrow>
   getRegex v fl = Inl (Error (NAME @ '': option \"regex\" must be a string or a RegExp object''))"
  by (simp add: getRegex_def)

lemma getValueOrMatchFn_Fun [simp]:
  "getValueOrMatchFn (Fun f) = Inr (Callback (getMatchFn f))"
  by (simp add: getValueOrMatchFn_def)

lemma getValueOrMatchFn_Str [simp]: "getValueOrMatchFn (Str s) = Inr (Template s)"
  by (simp add: getValueOrMatchFn_def)

lemma getValueOrMatchFn_other:
  "js_typeof v \<noteq> ''function'' \<Longrightarrow> js_typeof v \<noteq> ''string'' \<Longrightarrow>
   getValueOrMatchFn v = Inl (Error (NAME @ '': option \"value\" must be a string or a function''))"
  by (simp add: getValueOrMatchFn_def)

lemma valid_value_replacer: "valid_value v \<Longrightarrow> \<exists>rep. getValueOrMatchFn v = Inr rep"
  by (cases v) (auto simp: valid_value_def)

lemma forEach_append:
  "forEach (xs @ ys) b = (case forEach xs b of Inl e \<Rightarrow> Inl e | Inr b' \<Rightarrow> forEach ys b')"
  by (induction xs arbitrary: b) (auto split: sum.splits)

lemma forEach_failing_stage:
  assumes "st \<in> set ss" and "\<And>s. \<exists>e. stage_body st s = Inl e"
  shows "\<exists>e. forEach ss b = Inl e"
  using assms(1)
proof (induction ss arbitrary: b)
  case Nil
  then show ?case by simp
next
  case (Cons x xs)
  show ?case
  proof (cases "stage_body x b")
    case (Inl e)
    then show ?thesis by simp
  next
    case (Inr b')
    show ?thesis
    proof (cases "x = st")
      case True
      with assms(2)[of b] Inr show ?thesis by simp
    next
      case False
      with Cons.prems have "st \<in> set xs" by simp
      from Cons.IH[OF this, of b'] Inr show ?thesis by simp
    qed
  qed
qed

lemma stage_body_disabled: "\<not> truthy (enable st) \<Longrightarrow> stage_body st b = Inr b"
  by (simp add: stage_body_def)

lemma truncate_fields:
  "regex (stage.truncate opts) = regex opts" "flags (stage.truncate opts) = flags opts"
  "val (stage.truncate opts) = val opts" "enable (stage.truncate opts) = enable opts"
  by (simp_all add: stage.truncate_def)

lemma loader_single:
  "stages opts = None \<Longrightarrow> regexReplaceLoader b opts = stage_body (stage.truncate opts) b"
  by (simp add: regexReplaceLoader_def stages_of_def split: sum.splits)

lemma loader_stages:
  "stages opts = Some ss \<Longrightarrow> regexReplaceLoader b opts = forEach ss b"
  by (simp add: regexReplaceLoader_def stages_of_def)

lemma StringIndexOf_split:
  "StringIndexOf S p = Some i \<Longrightarrow> S = take i S @ p @ drop (i + length p) S"
proof (induction S arbitrary: i)
  case Nil
  then show ?case by (simp split: if_splits)
next
  case (Cons c cs)
  show ?case
  proof (cases "prefix p (c # cs)")
    case True
    with Cons.prems have "i = 0" by simp
    moreover from True obtain zs where "c # cs = p @ zs" by (auto simp: prefix_def)
    ultimately show ?thesis by simp
  next
    case False
    with Cons.prems obtain j where j: "StringIndexOf cs p = Some j" "i = Suc j" by auto
    from Cons.IH[OF j(1)] j(2) show ?thesis by simp
  qed
qed

lemma StringIndexOf_le: "StringIndexOf S p = Some i \<Longrightarrow> i + length p \<le> length S"
proof (induction S arbitrary: i)
  case Nil
  then show ?case by (simp split: if_splits)
next
  case (Cons c cs)
  show ?case
  proof (cases "prefix p (c # cs)")
    case True
    with Cons.prems have "i = 0" by simp
    moreover from True have "length p \<le> length (c # cs)" by (rule prefix_length_le)
    ultimately show ?thesis by simp
  next
    case False
    with Cons.prems obtain j where j: "StringIndexOf cs p = Some j" "i = Suc j" by auto
    from Cons.IH[OF j(1)] j(2) show ?thesis by simp
  qed
qed

lemma exec_loop_no_match:
  "\<forall>i \<le> length S. m S i = None \<Longrightarrow> exec_loop m g y S k = []"
proof (induction m g y S k rule: exec_loop.induct)
  case (1 m global sticky S lastIndex)
  show ?case
  proof (cases "lastIndex > length S")
    case True
    then show ?thesis by (subst exec_loop.simps) simp
  next
    case False
    then have n: "m S lastIndex = None" using "1.prems" by simp
    show ?thesis
    proof (cases sticky)
      case True
      with n False show ?thesis by (subst exec_loop.simps) simp
    next
      case f: False
      from "1.IH"(1)[OF False n f "1.prems"] n False f show ?thesis
        by (subst exec_loop.simps) simp
    qed
  qed
qed

text \<open>
  Where every enabled stage has a compiled pattern that matches nowhere in the buffer and
  a string or a function as value, the loader returns the buffer as it is.
\<close>

lemma stage_body_matches_nowhere:
  assumes "truthy (enable st)" "matches_nowhere st b" "valid_value (val st)"
  shows "stage_body st b = Inr b"
proof -
  from assms(3) obtain rep where rep: "getValueOrMatchFn (val st) = Inr rep"
    using valid_value_replacer by blast
  from assms(2) obtain r m F where r: "regex st = RegExpV r"
    and rx: "new_RegExp r (flags st) = Inr (PRegExp m F)"
    and none: "list_all (\<lambda>i. m b i = None) [0..<Suc (length b)]"
    by (auto simp: matches_nowhere_def split: jsval.splits sum.splits pattern.splits)
  from none have "\<forall>i \<le> length b. m b i = None" by (auto simp: list_all_iff)
  then have "exec_loop m (CHR ''g'' \<in> set F) (CHR ''y'' \<in> set F) b 0 = []"
    by (rule exec_loop_no_match)
  with assms(1) r rx rep show ?thesis by (simp add: stage_body_def replace_def)
qed

lemma forEach_matches_nowhere:
  "\<forall>st \<in> set ss. truthy (enable st) \<longrightarrow> matches_nowhere st b \<and> valid_value (val st) \<Longrightarrow>
   forEach ss b = Inr b"
proof (induction ss)
  case Nil
  then show ?case by simp
next
  case (Cons st ss)
  have "stage_body st b = Inr b"
  proof (cases "truthy (enable st)")
    case True
    with Cons.prems show ?thesis by (simp add: stage_body_matches_nowhere)
  next
    case False
    then show ?thesis by (rule stage_body_disabled)
  qed
  with Cons show ?case by simp
qed

lemma compiled_patterns_identity_on_no_match:
  assumes "\<forall>st \<in> set (stages_of opts).
             truthy (enable st) \<longrightarrow> matches_nowhere st b \<and> valid_value (val st)"
  shows "regexReplaceLoader b opts = Inr b"
  unfolding regexReplaceLoader_def using assms by (rule forEach_matches_nowhere)

text \<open>
  The match function: called with the values \<open>gs\<close>, then the offset, then the input,
  it calls the value function once, with the record that has \<open>gs\<close> at the keys from 0,
  the offset at \<^verbatim>\<open>index\<close> and the input at \<^verbatim>\<open>input\<close>, and returns its result.
\<close>

lemma reduce_keys:
  "reduce (\<lambda>map g i. map(KIdx i \<mapsto> g)) acc k gs =
     (\<lambda>key. case key of
              KIdx i \<Rightarrow> if k \<le> i \<and> i < k + length gs then Some (gs ! (i - k)) else acc key
            | _ \<Rightarrow> acc key)"
proof (induction gs arbitrary: acc k)
  case Nil
  show ?case by (rule ext) (auto split: key.splits)
next
  case (Cons g gs)
  show ?case
    unfolding reduce.simps Cons.IH
    by (rule ext) (auto split: key.splits simp: nth_Cons' Suc_diff_le)
qed

lemma getMatchFn_record:
  "getMatchFn valueFn (gs @ [off, inp]) = valueFn (match_of gs off inp)"
proof -
  have "reduce (\<lambda>map g i. map(KIdx i \<mapsto> g)) [KIndex \<mapsto> off, KInput \<mapsto> inp] 0 gs
          = match_of gs off inp"
    unfolding reduce_keys match_of_def by (rule ext) (auto split: key.splits)
  moreover have "arguments_at (gs @ [off, inp]) (int (length (gs @ [off, inp])) - 2) = off"
    by (simp add: arguments_at_def nth_append)
  moreover have "arguments_at (gs @ [off, inp]) (int (length (gs @ [off, inp])) - 1) = inp"
    by (simp add: arguments_at_def nth_append nat_add_distrib)
  ultimately show ?thesis
    unfolding getMatchFn_def Let_def js_slice_but_last_two by simp
qed

text \<open>
  For a pattern with named groups the groups object comes after the input, and the
  match function takes the last two arguments: it has the offset at the key after the
  groups, the input at \<^verbatim>\<open>index\<close> and the groups object at \<^verbatim>\<open>input\<close>.
\<close>

lemma getMatchFn_record_named_groups:
  "getMatchFn valueFn (gs @ [off, inp, named]) = valueFn (match_of (gs @ [off]) inp named)"
  using getMatchFn_record [of valueFn "gs @ [off]" inp named] by simp

lemma named_groups_callback_example:
  "regexReplaceLoader ''a1''
     \<lparr>regex = RegExpV named_digit_regexp, flags = None, val = Fun index_fn,
      enable = Bool True, stages = None\<rparr> = Inr ''aa1''"
  by (simp add: loader_single stage_body_def truncate_fields replace_def new_RegExp_def
      given_flags_def valid_flags_def named_digit_regexp_def named_digit_def
      is_digit_def getMatchFn_def arguments_at_def js_slice_def index_fn_def group_text_def)

text \<open>
  Given as a compiled pattern, \<^verbatim>\<open>(\d+)-(\d+)\<close> on \<^verbatim>\<open>10-20\<close> with the function
  above gives \<^verbatim>\<open>10+20\<close>, and the function sees the index 0 and the input.
\<close>

lemma compiled_pattern_callback_example:
  "regexReplaceLoader ''10-20''
     \<lparr>regex = RegExpV digits_dash_digits_regexp, flags = None, val = Fun plus_fn,
      enable = Bool True, stages = None\<rparr> = Inr ''10+20''"
  by (simp add: loader_single stage_body_def truncate_fields replace_def new_RegExp_def
      given_flags_def valid_flags_def digits_dash_digits_regexp_def digits_dash_digits_def
      is_digit_def Let_def getMatchFn_def arguments_at_def js_slice_def plus_fn_def
      group_text_def)

text \<open>
  The same compiled pattern with a string as value: without flags the first match is
  replaced, with the flag \<^verbatim>\<open>g\<close> every match, the template read anew for each; a
  flag string with a letter twice is rejected.
\<close>

lemma compiled_pattern_first_match_example:
  "regexReplaceLoader ''x10-20 3-4 5-''
     \<lparr>regex = RegExpV digits_dash_digits_regexp, flags = None,
      val = Str ''#'', enable = Bool True, stages = None\<rparr>
     = Inr ''x# 3-4 5-''"
  by (simp add: loader_single stage_body_def truncate_fields replace_def new_RegExp_def
      given_flags_def valid_flags_def digits_dash_digits_regexp_def digits_dash_digits_def
      is_digit_def Let_def)

lemma compiled_pattern_global_example:
  "regexReplaceLoader ''x10-20 3-4 5-''
     \<lparr>regex = RegExpV digits_dash_digits_regexp, flags = Some ''g'',
      val = Str ''[$2$1$$$3$10]'', enable = Bool True, stages = None\<rparr>
     = Inr ''x[2010$$3100] [43$$330] 5-''"
  by (simp add: loader_single stage_body_def truncate_fields replace_def new_RegExp_def
      given_flags_def valid_flags_def digits_dash_digits_regexp_def digits_dash_digits_def
      is_digit_def digit_of_def Let_def)

lemma rejected_flags_example:
  "regexReplaceLoader ''x10-20''
     \<lparr>regex = RegExpV digits_dash_digits_regexp, flags = Some ''gg'',
      val = Str ''#'', enable = Bool True, stages = None\<rparr>
     = Inl SyntaxError"
  by (simp add: loader_single stage_body_def truncate_fields new_RegExp_def
      given_flags_def valid_flags_def)

text \<open>
  The patterns of the examples as compiled patterns: \<^verbatim>\<open>[0-9]+\<close> turns
  \<^verbatim>\<open>abc123\<close> into \<^verbatim>\<open>abcX\<close>; \<^verbatim>\<open>[0-9]\<close> replaces every digit of
  \<^verbatim>\<open>a1b2c3\<close> with the flag \<^verbatim>\<open>g\<close> and the first one without it; \<^verbatim>\<open>^a\<close>
  leaves \<^verbatim>\<open>^a\<close> as it is. A string regex with the flag \<^verbatim>\<open>g\<close> still replaces
  one occurrence.
\<close>

lemma compiled_digits_example:
  "regexReplaceLoader ''abc123''
     \<lparr>regex = RegExpV digits_regexp, flags = None, val = Str ''X'', enable = Bool True,
      stages = None\<rparr> = Inr ''abcX''"
  by (simp add: loader_single stage_body_def truncate_fields replace_def new_RegExp_def
      given_flags_def valid_flags_def digits_regexp_def digits_def is_digit_def Let_def)

lemma compiled_one_digit_global_example:
  "regexReplaceLoader ''a1b2c3''
     \<lparr>regex = RegExpV one_digit_regexp, flags = Some ''g'', val = Str ''#'',
      enable = Bool True, stages = None\<rparr> = Inr ''a#b#c#''"
  by (simp add: loader_single stage_body_def truncate_fields replace_def new_RegExp_def
      given_flags_def valid_flags_def one_digit_regexp_def one_digit_def is_digit_def)

lemma compiled_one_digit_example:
  "regexReplaceLoader ''a1b2c3''
     \<lparr>regex = RegExpV one_digit_regexp, flags = None, val = Str ''#'',
      enable = Bool True, stages = None\<rparr> = Inr ''a#b2c3''"
  by (simp add: loader_single stage_body_def truncate_fields replace_def new_RegExp_def
      given_flags_def valid_flags_def one_digit_regexp_def one_digit_def is_digit_def)

lemma compiled_caret_example:
  "regexReplaceLoader ''^a''
     \<lparr>regex = RegExpV caret_a_regexp, flags = None, val = Str ''X'', enable = Bool True,
      stages = None\<rparr> = Inr ''^a''"
  by (simp add: loader_single stage_body_def truncate_fields replace_def new_RegExp_def
      given_flags_def valid_flags_def caret_a_regexp_def caret_a_def)

lemma string_regex_global_flag_example:
  "regexReplaceLoader ''aXbXc''
     \<lparr>regex = Str ''X'', flags = Some ''g'', val = Str ''#'', enable = Bool True,
      stages = None\<rparr> = Inr ''a#bXc''"
  by (simp add: loader_single stage_body_def truncate_fields replace_def)

section \<open>The claims\<close>

subsection \<open>C1: a stage whose regex is a string\<close>

text \<open>
  C1: a string regex is to be read as a regular expression, so that \<^verbatim>\<open>abc123\<close> with
  \<^verbatim>\<open>[0-9]+\<close> and \<^verbatim>\<open>X\<close> gives \<^verbatim>\<open>abcX\<close>, and \<^verbatim>\<open>a1b2c3\<close> with
  \<^verbatim>\<open>[0-9]\<close> and \<^verbatim>\<open>#\<close> gives \<^verbatim>\<open>a#b#c#\<close>. The loader returns both buffers
  as they are: \<^verbatim>\<open>getRegex\<close> gives the string back as it is, and the string is
  looked for character by character and is not in the buffer.
\<close>

theorem string_regex_examples_unchanged:
  "regexReplaceLoader ''abc123''
     \<lparr>regex = Str ''[0-9]+'', flags = None, val = Str ''X'', enable = Bool True,
      stages = None\<rparr> = Inr ''abc123'' \<and>
   regexReplaceLoader ''a1b2c3''
     \<lparr>regex = Str ''[0-9]'', flags = None, val = Str ''#'', enable = Bool True,
      stages = None\<rparr> = Inr ''a1b2c3''"
  by (simp add: loader_single stage_body_def truncate_fields replace_def)

subsection \<open>C2: the options object as the only stage\<close>

text \<open>
  C2 says that an options object without stages is run whatever its \<^verbatim>\<open>enable\<close> is.
  Without \<^verbatim>\<open>enable\<close> the loader returns \<^verbatim>\<open>abc\<close> as it is; the same options
  with \<^verbatim>\<open>enable: true\<close> give \<^verbatim>\<open>Zbc\<close>.
\<close>

theorem single_config_without_enable_unchanged:
  "regexReplaceLoader ''abc''
     \<lparr>regex = Str ''a'', flags = None, val = Str ''Z'', enable = Undefined,
      stages = None\<rparr> = Inr ''abc'' \<and>
   regexReplaceLoader ''abc''
     \<lparr>regex = Str ''a'', flags = None, val = Str ''Z'', enable = Bool True,
      stages = None\<rparr> = Inr ''Zbc''"
  by (simp add: loader_single stage_body_def truncate_fields replace_def)

text \<open>
  C2, amended: an options object without stages is a stage like any other. When its
  \<^verbatim>\<open>enable\<close> is absent or falsy the loader returns the buffer as it is. When its
  \<^verbatim>\<open>enable\<close> is truthy and its regex and value are valid, the loader returns
  \<^verbatim>\<open>source.replace(regex, valueOrFn)\<close> for the pattern that \<^verbatim>\<open>getRegex\<close> and the
  replacement that \<^verbatim>\<open>getValueOrMatchFn\<close> return, the result it has for
  \<^verbatim>\<open>enable: true\<close>.
\<close>

theorem single_config_gated_by_enable:
  assumes "stages opts = None"
  shows "(\<not> truthy (enable opts) \<longrightarrow> regexReplaceLoader b opts = Inr b) \<and>
         (truthy (enable opts) \<longrightarrow> getRegex (regex opts) (flags opts) = Inr rx \<longrightarrow>
            getValueOrMatchFn (val opts) = Inr rep \<longrightarrow>
            regexReplaceLoader b opts = Inr (String_replace b rx rep)) \<and>
         regexReplaceLoader b opts =
           (if truthy (enable opts) then regexReplaceLoader b (opts\<lparr>enable := Bool True\<rparr>)
            else Inr b)"
  using assms
  by (simp add: loader_single stage_body_def truncate_fields replace_def cong: sum.case_cong)

theorem single_config_gated_by_enable_witness:
  "regexReplaceLoader ''abc''
     \<lparr>regex = Str ''a'', flags = None, val = Str ''Z'', enable = Num 0,
      stages = None\<rparr> = Inr ''abc'' \<and>
   regexReplaceLoader ''abc''
     \<lparr>regex = Str ''a'', flags = None, val = Str ''Z'', enable = Num 1,
      stages = None\<rparr> = Inr ''Zbc'' \<and>
   regexReplaceLoader ''10-20''
     \<lparr>regex = RegExpV digits_dash_digits_regexp, flags = None, val = Fun plus_fn,
      enable = Str ''yes'', stages = None\<rparr> = Inr ''10+20''"
proof (intro conjI)
  let ?off = "\<lparr>regex = Str ''a'', flags = None, val = Str ''Z'', enable = Num 0,
               stages = None\<rparr>"
  have "stages ?off = None" by simp
  from single_config_gated_by_enable [OF this, of "''abc''"]
  show "regexReplaceLoader ''abc'' ?off = Inr ''abc''" by simp
next
  let ?on = "\<lparr>regex = Str ''a'', flags = None, val = Str ''Z'', enable = Num 1,
              stages = None\<rparr>"
  have "stages ?on = None" by simp
  from single_config_gated_by_enable
    [OF this, where b = "''abc''" and rx = "PString ''a''" and rep = "Template ''Z''"]
  show "regexReplaceLoader ''abc'' ?on = Inr ''Zbc''" by simp
next
  let ?fn = "\<lparr>regex = RegExpV digits_dash_digits_regexp, flags = None, val = Fun plus_fn,
              enable = Str ''yes'', stages = None\<rparr>"
  have "stages ?fn = None" by simp
  from single_config_gated_by_enable
    [OF this, where b = "''10-20''" and rx = "PRegExp digits_dash_digits []"
      and rep = "Callback (getMatchFn plus_fn)"]
  show "regexReplaceLoader ''10-20'' ?fn = Inr ''10+20''"
    by (simp add: new_RegExp_def given_flags_def valid_flags_def
        digits_dash_digits_regexp_def digits_dash_digits_def is_digit_def Let_def
        getMatchFn_def arguments_at_def js_slice_def plus_fn_def group_text_def)
qed

subsection \<open>C3: a function as value\<close>

text \<open>
  C3: with a function as value, the pattern \<^verbatim>\<open>(\d+)-(\d+)\<close> on \<^verbatim>\<open>10-20\<close> is to
  give \<^verbatim>\<open>10+20\<close>. With the pattern given as a string, as the options of the other
  examples give it, the loader returns \<^verbatim>\<open>10-20\<close> whatever the function is: the
  string is looked for as it is, it is not in the buffer, and the function is not called.
\<close>

theorem string_regex_callback_example_unchanged:
  "regexReplaceLoader ''10-20''
     \<lparr>regex = Str digits_dash_digits_source, flags = None, val = Fun f,
      enable = Bool True, stages = None\<rparr> = Inr ''10-20''"
  by (simp add: loader_single stage_body_def truncate_fields replace_def
      digits_dash_digits_source_def)

subsection \<open>C4 and C5: options of the wrong type\<close>

text \<open>
  C4: when an enabled stage has a regex that is neither a string nor a RegExp, the call
  ends with an error and returns no buffer, whatever the buffer and the other stages
  are; when the stages before it have run, the error is the one of \<^verbatim>\<open>getRegex\<close>,
  its message starting with the name of the loader.
\<close>

theorem invalid_regex_type_throws:
  assumes "stages_of opts = pre @ st # post" and "truthy (enable st)"
    and "typeOf (regex st) \<noteq> ''String''" and "typeOf (regex st) \<noteq> ''RegExp''"
  shows "(\<exists>e. regexReplaceLoader b opts = Inl e) \<and>
         (\<forall>b'. forEach pre b = Inr b' \<longrightarrow>
            regexReplaceLoader b opts =
              Inl (Error (NAME @ '': option \"regex\" must be a string or a RegExp object'')))"
proof
  have "\<And>s. \<exists>e. stage_body st s = Inl e"
    using assms(2-4) by (simp add: stage_body_def getRegex_other)
  moreover have "st \<in> set (stages_of opts)" using assms(1) by simp
  ultimately show "\<exists>e. regexReplaceLoader b opts = Inl e"
    unfolding regexReplaceLoader_def by (rule forEach_failing_stage[rotated])
next
  show "\<forall>b'. forEach pre b = Inr b' \<longrightarrow>
          regexReplaceLoader b opts =
            Inl (Error (NAME @ '': option \"regex\" must be a string or a RegExp object''))"
    using assms
    by (simp add: regexReplaceLoader_def forEach_append stage_body_def getRegex_other)
qed

theorem invalid_regex_type_throws_witness:
  "regexReplaceLoader ''foo''
     \<lparr>regex = Undefined, flags = None, val = Undefined, enable = Undefined,
      stages = Some [\<lparr>regex = Str ''f'', flags = None, val = Str ''b'', enable = Bool True\<rparr>,
                     \<lparr>regex = Num 42, flags = None, val = Str ''c'', enable = Bool True\<rparr>,
                     \<lparr>regex = Str ''o'', flags = None, val = Str ''p'', enable = Bool True\<rparr>]\<rparr>
     = Inl (Error (NAME @ '': option \"regex\" must be a string or a RegExp object''))"
proof -
  let ?s1 = "\<lparr>regex = Str ''f'', flags = None, val = Str ''b'', enable = Bool True\<rparr>"
  let ?s2 = "\<lparr>regex = Num 42, flags = None, val = Str ''c'', enable = Bool True\<rparr>"
  let ?s3 = "\<lparr>regex = Str ''o'', flags = None, val = Str ''p'', enable = Bool True\<rparr>"
  let ?opts = "\<lparr>regex = Undefined, flags = None, val = Undefined, enable = Undefined,
                stages = Some [?s1, ?s2, ?s3]\<rparr>"
  have "stages_of ?opts = [?s1] @ ?s2 # [?s3]" by (simp add: stages_of_def)
  moreover have "truthy (enable ?s2)" by simp
  moreover have "typeOf (regex ?s2) \<noteq> ''String''" "typeOf (regex ?s2) \<noteq> ''RegExp''"
    by simp_all
  ultimately have "\<forall>b'. forEach [?s1] ''foo'' = Inr b' \<longrightarrow>
       regexReplaceLoader ''foo'' ?opts =
         Inl (Error (NAME @ '': option \"regex\" must be a string or a RegExp object''))"
    using invalid_regex_type_throws [of ?opts "[?s1]" ?s2 "[?s3]" "''foo''"] by blast
  moreover have "forEach [?s1] ''foo'' = Inr ''boo''"
    by (simp add: stage_body_def replace_def)
  ultimately show ?thesis by blast
qed

text \<open>
  C5: when an enabled stage has a regex that \<^verbatim>\<open>getRegex\<close> accepts and a value that
  is neither a string nor a function, the call ends with an error and returns no
  buffer; when the stages before it have run, the error is the one of
  \<^verbatim>\<open>getValueOrMatchFn\<close>, its message starting with the name of the loader. An options
  object without stages has no stage before it.
\<close>

theorem invalid_value_type_throws:
  assumes "stages_of opts = pre @ st # post" and "truthy (enable st)"
    and "getRegex (regex st) (flags st) = Inr rx"
    and "js_typeof (val st) \<noteq> ''function''" and "js_typeof (val st) \<noteq> ''string''"
  shows "(\<exists>e. regexReplaceLoader b opts = Inl e) \<and>
         (\<forall>b'. forEach pre b = Inr b' \<longrightarrow>
            regexReplaceLoader b opts =
              Inl (Error (NAME @ '': option \"value\" must be a string or a function'')))"
proof
  have "\<And>s. \<exists>e. stage_body st s = Inl e"
    using assms(2-5) by (simp add: stage_body_def replace_def getValueOrMatchFn_other)
  moreover have "st \<in> set (stages_of opts)" using assms(1) by simp
  ultimately show "\<exists>e. regexReplaceLoader b opts = Inl e"
    unfolding regexReplaceLoader_def by (rule forEach_failing_stage[rotated])
next
  show "\<forall>b'. forEach pre b = Inr b' \<longrightarrow>
          regexReplaceLoader b opts =
            Inl (Error (NAME @ '': option \"value\" must be a string or a function''))"
    using assms
    by (simp add: regexReplaceLoader_def forEach_append stage_body_def replace_def
        getValueOrMatchFn_other)
qed

theorem invalid_value_type_throws_witness:
  "regexReplaceLoader ''abc''
     \<lparr>regex = Str ''a'', flags = None, val = Num 42, enable = Bool True, stages = None\<rparr>
     = Inl (Error (NAME @ '': option \"value\" must be a string or a function''))"
proof -
  let ?st = "\<lparr>regex = Str ''a'', flags = None, val = Num 42, enable = Bool True\<rparr>"
  let ?opts = "\<lparr>regex = Str ''a'', flags = None, val = Num 42, enable = Bool True,
                stages = None\<rparr>"
  have "stages_of ?opts = [] @ ?st # []" by (simp add: stages_of_def stage.truncate_def)
  moreover have "truthy (enable ?st)" by simp
  moreover have "getRegex (regex ?st) (flags ?st) = Inr (PString ''a'')" by simp
  moreover have "js_typeof (val ?st) \<noteq> ''function''" "js_typeof (val ?st) \<noteq> ''string''"
    by simp_all
  ultimately have "\<forall>b'. forEach [] ''abc'' = Inr b' \<longrightarrow>
       regexReplaceLoader ''abc'' ?opts =
         Inl (Error (NAME @ '': option \"value\" must be a string or a function''))"
    using invalid_value_type_throws [of ?opts "[]" ?st "[]" "PString ''a''" "''abc''"] by blast
  then show ?thesis by simp
qed

subsection \<open>C6: the stages in order\<close>

text \<open>
  C6: the stages run one after the other in the order given, each on the buffer that the
  one before it returned: running the stages \<open>xs @ ys\<close> is running \<open>xs\<close> and then
  \<open>ys\<close> on the result, and an error of \<open>xs\<close> ends the call. So \<^verbatim>\<open>foo\<close> with the
  stages \<^verbatim>\<open>f\<close> to \<^verbatim>\<open>b\<close> and \<^verbatim>\<open>b\<close> to \<^verbatim>\<open>c\<close> gives \<^verbatim>\<open>coo\<close>.
\<close>

theorem stages_run_in_order:
  "regexReplaceLoader b (opts\<lparr>stages := Some (xs @ ys)\<rparr>) =
     (case regexReplaceLoader b (opts\<lparr>stages := Some xs\<rparr>) of
        Inl e \<Rightarrow> Inl e
      | Inr b' \<Rightarrow> regexReplaceLoader b' (opts\<lparr>stages := Some ys\<rparr>)) \<and>
   regexReplaceLoader b (opts\<lparr>stages := Some [st]\<rparr>) = stage_body st b \<and>
   regexReplaceLoader ''foo''
     \<lparr>regex = Undefined, flags = None, val = Undefined, enable = Undefined,
      stages = Some [\<lparr>regex = Str ''f'', flags = None, val = Str ''b'', enable = Bool True\<rparr>,
                     \<lparr>regex = Str ''b'', flags = None, val = Str ''c'', enable = Bool True\<rparr>]\<rparr>
     = Inr ''coo''"
proof (intro conjI)
  show "regexReplaceLoader b (opts\<lparr>stages := Some (xs @ ys)\<rparr>) =
     (case regexReplaceLoader b (opts\<lparr>stages := Some xs\<rparr>) of
        Inl e \<Rightarrow> Inl e
      | Inr b' \<Rightarrow> regexReplaceLoader b' (opts\<lparr>stages := Some ys\<rparr>))"
    by (simp add: loader_stages forEach_append cong: sum.case_cong)
  show "regexReplaceLoader b (opts\<lparr>stages := Some [st]\<rparr>) = stage_body st b"
    by (simp add: loader_stages split: sum.splits)
  show "regexReplaceLoader ''foo''
     \<lparr>regex = Undefined, flags = None, val = Undefined, enable = Undefined,
      stages = Some [\<lparr>regex = Str ''f'', flags = None, val = Str ''b'', enable = Bool True\<rparr>,
                     \<lparr>regex = Str ''b'', flags = None, val = Str ''c'', enable = Bool True\<rparr>]\<rparr>
     = Inr ''coo''"
    by (simp add: loader_stages stage_body_def replace_def)
qed

theorem stages_run_in_order_witness:
  "regexReplaceLoader ''foo''
     \<lparr>regex = Undefined, flags = None, val = Undefined, enable = Undefined,
      stages = Some ([\<lparr>regex = Str ''f'', flags = None, val = Str ''b'', enable = Bool True\<rparr>]
                    @ [\<lparr>regex = Str ''o'', flags = None, val = Str ''0'',
                        enable = Bool True\<rparr>])\<rparr>
     = Inr ''b0o''"
proof -
  let ?s1 = "\<lparr>regex = Str ''f'', flags = None, val = Str ''b'', enable = Bool True\<rparr>"
  let ?s2 = "\<lparr>regex = Str ''o'', flags = None, val = Str ''0'', enable = Bool True\<rparr>"
  let ?opts = "\<lparr>regex = Undefined, flags = None, val = Undefined, enable = Undefined,
                stages = None\<rparr>"
  have 1: "regexReplaceLoader ''foo'' (?opts\<lparr>stages := Some [?s1]\<rparr>) = Inr ''boo''"
    by (simp add: loader_stages stage_body_def replace_def)
  have 2: "regexReplaceLoader ''boo'' (?opts\<lparr>stages := Some [?s2]\<rparr>) = Inr ''b0o''"
    by (simp add: loader_stages stage_body_def replace_def)
  from stages_run_in_order [where b = "''foo''" and opts = ?opts and xs = "[?s1]"
      and ys = "[?s2]"] 1 2
  show ?thesis by simp
qed

subsection \<open>C7: getRegex\<close>

text \<open>
  C7: \<^verbatim>\<open>getRegex\<close> returns a string as it is, whatever the flags are, so that the
  flags of a stage whose regex is a string change nothing; for a RegExp object it returns
  a new pattern, the object's source compiled under the flags given, or under the
  object's own flags when none are given. (A flag string that the RegExp constructor
  rejects gives no pattern.)
\<close>

theorem getRegex_resolution:
  "getRegex (Str s) fl = Inr (PString s) \<and>
   (valid_flags F \<longrightarrow> compile r F = Some m \<longrightarrow>
      getRegex (RegExpV r) (Some F) = Inr (PRegExp m F)) \<and>
   (valid_flags (rflags r) \<longrightarrow> compile r (rflags r) = Some m' \<longrightarrow>
      getRegex (RegExpV r) None = Inr (PRegExp m' (rflags r))) \<and>
   (typeOf (regex st) = ''String'' \<longrightarrow> stage_body (st\<lparr>flags := fl'\<rparr>) b = stage_body st b)"
proof (intro conjI impI)
  show "getRegex (Str s) fl = Inr (PString s)" by simp
next
  assume "valid_flags F" and "compile r F = Some m"
  then show "getRegex (RegExpV r) (Some F) = Inr (PRegExp m F)"
    by (simp add: new_RegExp_def given_flags_def)
next
  assume "valid_flags (rflags r)" and "compile r (rflags r) = Some m'"
  then show "getRegex (RegExpV r) None = Inr (PRegExp m' (rflags r))"
    by (simp add: new_RegExp_def given_flags_def)
next
  assume "typeOf (regex st) = ''String''"
  then obtain s where "regex st = Str s" using typeOf_String by blast
  then show "stage_body (st\<lparr>flags := fl'\<rparr>) b = stage_body st b"
    by (simp add: stage_body_def replace_def)
qed

theorem getRegex_resolution_witness:
  "getRegex (Str ''[0-9]+'') (Some ''g'') = Inr (PString ''[0-9]+'') \<and>
   getRegex (RegExpV digits_dash_digits_regexp) (Some ''gi'')
     = Inr (PRegExp digits_dash_digits ''gi'') \<and>
   getRegex (RegExpV digits_dash_digits_regexp) None = Inr (PRegExp digits_dash_digits [])"
proof -
  have v: "valid_flags ''gi''" "valid_flags (rflags digits_dash_digits_regexp)"
    by (simp_all add: valid_flags_def digits_dash_digits_regexp_def)
  have c: "compile digits_dash_digits_regexp ''gi'' = Some digits_dash_digits"
    "compile digits_dash_digits_regexp (rflags digits_dash_digits_regexp)
       = Some digits_dash_digits"
    by (simp_all add: digits_dash_digits_regexp_def)
  from v c
    getRegex_resolution [where s = "''[0-9]+''" and fl = "Some ''g''" and F = "''gi''"
      and r = digits_dash_digits_regexp and m = digits_dash_digits
      and m' = digits_dash_digits]
  show ?thesis by (simp add: digits_dash_digits_regexp_def)
qed

subsection \<open>C8: no occurrence, no change\<close>

text \<open>
  C8: where the patterns of the enabled stages have no occurrence in the buffer, the
  loader is to return the buffer as it is. The pattern \<^verbatim>\<open>^a\<close> has no occurrence in
  the buffer \<^verbatim>\<open>^a\<close>, which starts with a caret and not with the letter; given as a
  string it is looked for character by character, found at index 0, and the loader
  returns \<^verbatim>\<open>X\<close>.
\<close>

theorem string_regex_caret_example_replaced:
  "regexReplaceLoader ''^a''
     \<lparr>regex = Str ''^a'', flags = None, val = Str ''X'', enable = Bool True,
      stages = None\<rparr> = Inr ''X''"
  by (simp add: loader_single stage_body_def truncate_fields replace_def)

subsection \<open>C9 and C10: a stage that is not enabled\<close>

text \<open>
  C9: a stage whose \<^verbatim>\<open>enable\<close> is falsy returns the buffer it is given, and in a
  sequence of stages the buffer of the stages before it goes to the stages after it as it
  is. So \<^verbatim>\<open>abc\<close> with regex \<^verbatim>\<open>a\<close>, value \<^verbatim>\<open>Z\<close> and \<^verbatim>\<open>enable: false\<close>
  stays \<^verbatim>\<open>abc\<close>.
\<close>

theorem disabled_stage_passes_through:
  assumes "\<not> truthy (enable st)"
  shows "stage_body st b = Inr b \<and>
         (\<forall>b'. stages_of opts = pre @ st # post \<longrightarrow> forEach pre b = Inr b' \<longrightarrow>
            regexReplaceLoader b opts = forEach post b')"
  using assms by (simp add: regexReplaceLoader_def forEach_append stage_body_def)

theorem disabled_stage_passes_through_witness:
  "regexReplaceLoader ''abc''
     \<lparr>regex = Str ''a'', flags = None, val = Str ''Z'', enable = Bool False, stages = None\<rparr>
     = Inr ''abc''"
proof -
  let ?st = "\<lparr>regex = Str ''a'', flags = None, val = Str ''Z'', enable = Bool False\<rparr>"
  let ?opts = "\<lparr>regex = Str ''a'', flags = None, val = Str ''Z'', enable = Bool False,
                stages = None\<rparr>"
  have "\<not> truthy (enable ?st)" by simp
  from disabled_stage_passes_through [OF this, of "''abc''" ?opts "[]" "[]"]
  show ?thesis by (simp add: stages_of_def stage.truncate_def)
qed

text \<open>
  C10: a stage whose \<^verbatim>\<open>enable\<close> is falsy is run without a look at its regex, flags
  and value: with any values in their place, of a wrong type too, it returns the buffer
  it is given and no error, and the result of the whole sequence is the same.
\<close>

theorem disabled_stage_not_inspected:
  assumes "\<not> truthy (enable st)"
  shows "stage_body (st\<lparr>regex := r, flags := fl, val := v\<rparr>) b = Inr b \<and>
         forEach (pre @ st\<lparr>regex := r, flags := fl, val := v\<rparr> # post) b
           = forEach (pre @ st # post) b"
  using assms by (simp add: forEach_append stage_body_def cong: sum.case_cong)

theorem disabled_stage_not_inspected_witness:
  "stage_body \<lparr>regex = Num 42, flags = None, val = Num 42, enable = Bool False\<rparr> ''abc''
     = Inr ''abc'' \<and>
   regexReplaceLoader ''abc''
     \<lparr>regex = Num 42, flags = None, val = Num 42, enable = Bool False, stages = None\<rparr>
     = Inr ''abc''"
proof -
  let ?st = "\<lparr>regex = Str ''a'', flags = None, val = Str ''Z'', enable = Bool False\<rparr>"
  have "\<not> truthy (enable ?st)" by simp
  from disabled_stage_not_inspected [OF this, of "Num 42" None "Num 42" "''abc''" "[]" "[]"]
  show ?thesis by (simp add: regexReplaceLoader_def stages_of_def stage.truncate_def)
qed

end
